theory Spec2Isabelle
  imports Complex_Main "HOL-Library.AList" "HOL-Library.Sublist"
begin

section \<open>Frames of movie records\<close>

text \<open>
  Both scripts (\<^verbatim>\<open>datadasher.py\<close>, class \<^verbatim>\<open>MovieDB\<close>, the curated Disney data set, and
  \<^verbatim>\<open>extra/datascrapper.py\<close>, class \<^verbatim>\<open>MovieFilter\<close>, the broader scraped data set) keep
  their records in a pandas \<^verbatim>\<open>DataFrame\<close>. A frame is modelled by its column labels and its
  rows in order; a row maps a column label to a cell. A cell is what pandas holds there:
  \<open>NaN\<close> (also \<^verbatim>\<open>NaT\<close> and \<^verbatim>\<open>None\<close>: the absent value), a text, a number or a timestamp.
  Numbers are exact reals: the binary rounding of a float product is not modelled.
  Texts are byte strings; \<open>upper\<close> and \<open>lower\<close> change the letters a-z and A-Z only.
\<close>

datatype date = Date (day_of: nat) (month_of: nat) (year_of: int)

datatype cell = NaN | Str string | Num real | Ts date

type_synonym row = "(string \<times> cell) list"

record dataframe =
  columns :: "string list"
  rows :: "row list"

datatype error =
    FileNotFoundError
  | ParserError
  | KeyError string
  | ValueError
  | TypeError
  | AttributeError
  | RegexError
  | SystemExit nat

definition and_then :: "error + 'a \<Rightarrow> ('a \<Rightarrow> error + 'b) \<Rightarrow> error + 'b" where
  "and_then m f = (case m of Inl e \<Rightarrow> Inl e | Inr x \<Rightarrow> f x)"

fun traverse :: "('a \<Rightarrow> error + 'b) \<Rightarrow> 'a list \<Rightarrow> error + 'b list" where
  "traverse f [] = Inr []"
| "traverse f (x # xs) =
     (case f x of
        Inl e \<Rightarrow> Inl e
      | Inr y \<Rightarrow> (case traverse f xs of Inl e \<Rightarrow> Inl e | Inr ys \<Rightarrow> Inr (y # ys)))"

text \<open>\<^verbatim>\<open>row[c]\<close>, \<^verbatim>\<open>c in df.columns\<close>, \<^verbatim>\<open>df[c]\<close> (a \<^verbatim>\<open>KeyError\<close> when the label is unknown)
  and \<^verbatim>\<open>df[c] = values\<close> (the label is appended when it is new).\<close>

definition cell_of :: "row \<Rightarrow> string \<Rightarrow> cell" where
  "cell_of r c = (case map_of r c of Some v \<Rightarrow> v | None \<Rightarrow> NaN)"

definition has_col :: "dataframe \<Rightarrow> string \<Rightarrow> bool" where
  "has_col d c = (c \<in> set (columns d))"

definition getitem :: "dataframe \<Rightarrow> string \<Rightarrow> error + cell list" where
  "getitem d c =
     (if has_col d c then Inr (map (\<lambda>r. cell_of r c) (rows d)) else Inl (KeyError c))"

definition setitem :: "dataframe \<Rightarrow> string \<Rightarrow> cell list \<Rightarrow> dataframe" where
  "setitem d c vs =
     \<lparr>columns = (if has_col d c then columns d else columns d @ [c]),
      rows = map (\<lambda>(r, v). AList.update c v r) (zip (rows d) vs)\<rparr>"

subsection \<open>Text helpers\<close>

definition upper_char :: "char \<Rightarrow> char" where
  "upper_char c =
     (case map_of (zip ''abcdefghijklmnopqrstuvwxyz'' ''ABCDEFGHIJKLMNOPQRSTUVWXYZ'') c of
        Some u \<Rightarrow> u | None \<Rightarrow> c)"

definition lower_char :: "char \<Rightarrow> char" where
  "lower_char c =
     (case map_of (zip ''ABCDEFGHIJKLMNOPQRSTUVWXYZ'' ''abcdefghijklmnopqrstuvwxyz'') c of
        Some l \<Rightarrow> l | None \<Rightarrow> c)"

definition upper :: "string \<Rightarrow> string" where
  "upper s = map upper_char s"

definition lower :: "string \<Rightarrow> string" where
  "lower s = map lower_char s"

fun split_on :: "char \<Rightarrow> string \<Rightarrow> string list" where
  "split_on sep [] = [[]]"
| "split_on sep (c # cs) =
     (if c = sep then [] # split_on sep cs
      else (case split_on sep cs of
              [] \<Rightarrow> [[c]]
            | p # ps \<Rightarrow> (c # p) # ps))"

definition digit_val :: "char \<Rightarrow> nat option" where
  "digit_val c = map_of (zip ''0123456789'' [0, 1, 2, 3, 4, 5, 6, 7, 8, 9]) c"

fun digits_val :: "nat \<Rightarrow> string \<Rightarrow> nat option" where
  "digits_val acc [] = Some acc"
| "digits_val acc (c # cs) =
     (case digit_val c of None \<Rightarrow> None | Some v \<Rightarrow> digits_val (10 * acc + v) cs)"

definition nat_of_digits :: "string \<Rightarrow> nat option" where
  "nat_of_digits s = (if s = [] then None else digits_val 0 s)"

subsection \<open>Reading the source file\<close>

text \<open>
  \<^verbatim>\<open>pd.read_csv\<close> is library code. Its three outcomes are the input of the model: the
  file does not exist, the text cannot be read as delimited text, or a frame comes back
  whose cells are texts, numbers and \<open>NaN\<close> for the empty fields.
\<close>

datatype source = NoSuchFile | Unreadable | Parsed dataframe

fun read_csv :: "source \<Rightarrow> error + dataframe" where
  "read_csv NoSuchFile = Inl FileNotFoundError"
| "read_csv Unreadable = Inl ParserError"
| "read_csv (Parsed d) = Inr d"

text \<open>
  \<^verbatim>\<open>pd.to_datetime(column, format='%d/%m/%Y')\<close>: an absent cell stays absent, a text is
  read as day/month/year (one or two digits, one or two digits, four digits, a date of
  the calendar), and anything else raises, since \<^verbatim>\<open>errors\<close> keeps its default
  \<^verbatim>\<open>'raise'\<close>.
\<close>

definition leap_year :: "nat \<Rightarrow> bool" where
  "leap_year y = (y mod 4 = 0 \<and> (y mod 100 \<noteq> 0 \<or> y mod 400 = 0))"

definition days_in_month :: "nat \<Rightarrow> nat \<Rightarrow> nat" where
  "days_in_month y m =
     (if m = 2 then (if leap_year y then 29 else 28)
      else if m = 4 \<or> m = 6 \<or> m = 9 \<or> m = 11 then 30
      else 31)"

definition strptime_dmy :: "string \<Rightarrow> date option" where
  "strptime_dmy s =
     (case split_on (CHR ''/'') s of
        [ds, ms, ys] \<Rightarrow>
          (if length ds \<in> {1, 2} \<and> length ms \<in> {1, 2} \<and> length ys = 4 then
             (case (nat_of_digits ds, nat_of_digits ms, nat_of_digits ys) of
                (Some d, Some m, Some y) \<Rightarrow>
                  (if 1 \<le> m \<and> m \<le> 12 \<and> 1 \<le> d \<and> d \<le> days_in_month y m \<and> 1 \<le> y
                   then Some (Date d m (int y)) else None)
              | _ \<Rightarrow> None)
           else None)
      | _ \<Rightarrow> None)"

fun to_datetime_cell :: "cell \<Rightarrow> error + cell" where
  "to_datetime_cell NaN = Inr NaN"
| "to_datetime_cell (Str s) =
     (case strptime_dmy s of None \<Rightarrow> Inl ValueError | Some d \<Rightarrow> Inr (Ts d))"
| "to_datetime_cell (Num x) = Inl ValueError"
| "to_datetime_cell (Ts d) = Inr (Ts d)"

definition to_datetime :: "cell list \<Rightarrow> error + cell list" where
  "to_datetime cs = traverse to_datetime_cell cs"

subsection \<open>The curated loader: \<^verbatim>\<open>MovieDB.__init__\<close>\<close>

text \<open>The dictionary handed to \<^verbatim>\<open>.dt.month.map\<close>, in the order of the source.\<close>

definition season_dict :: "(nat \<times> string) list" where
  "season_dict =
     [(12, ''Winter''), (1, ''Winter''), (2, ''Winter''),
      (3, ''Spring''), (4, ''Spring''), (5, ''Spring''),
      (6, ''Summer''), (7, ''Summer''), (8, ''Summer''),
      (9, ''Fall''), (10, ''Fall''), (11, ''Fall'')]"

text \<open>\<^verbatim>\<open>.dt.month.map(dict)\<close> on one cell: \<^verbatim>\<open>NaT\<close> has no month and maps to \<open>NaN\<close>, and so
  does a month the dictionary does not hold.\<close>

fun season_cell :: "cell \<Rightarrow> cell" where
  "season_cell (Ts d) =
     (case map_of season_dict (month_of d) of Some s \<Rightarrow> Str s | None \<Rightarrow> NaN)"
| "season_cell c = NaN"

record MovieDB =
  df :: dataframe

text \<open>The body of the \<^verbatim>\<open>try\<close> block.\<close>

definition MovieDB_load :: "source \<Rightarrow> error + dataframe" where
  "MovieDB_load csv_file =
     and_then (read_csv csv_file) (\<lambda>d0.
     and_then (getitem d0 ''Date Released'') (\<lambda>raw.
     and_then (to_datetime raw) (\<lambda>dates.
       let d1 = setitem d0 ''Date Released'' dates in
       and_then (getitem d1 ''Date Released'') (\<lambda>released.
         Inr (setitem d1 ''Season'' (map season_cell released))))))"

text \<open>The two handlers: \<^verbatim>\<open>except FileNotFoundError\<close> and \<^verbatim>\<open>except Exception\<close> both
  print a diagnostic and call \<^verbatim>\<open>sys.exit(1)\<close>.\<close>

definition MovieDB_init :: "source \<Rightarrow> error + MovieDB" where
  "MovieDB_init csv_file =
     (case MovieDB_load csv_file of
        Inl FileNotFoundError \<Rightarrow> Inl (SystemExit 1)
      | Inl e \<Rightarrow> Inl (SystemExit 1)
      | Inr d \<Rightarrow> Inr \<lparr>MovieDB.df = d\<rparr>)"

text \<open>The season mapping in the specification's words: months 12, 1, 2 give Winter;
  3, 4, 5 Spring; 6, 7, 8 Summer; 9, 10, 11 Fall.\<close>

definition spec_season :: "nat \<Rightarrow> string option" where
  "spec_season m =
     (if m \<in> {12, 1, 2} then Some ''Winter''
      else if m \<in> {3, 4, 5} then Some ''Spring''
      else if m \<in> {6, 7, 8} then Some ''Summer''
      else if m \<in> {9, 10, 11} then Some ''Fall''
      else None)"

subsection \<open>The broader loader: \<^verbatim>\<open>MovieFilter.__init__\<close> and \<^verbatim>\<open>format_date\<close>\<close>














record MovieFilter =
  df :: dataframe



section \<open>The filter engines\<close>

subsection \<open>Masks and comparisons\<close>

text \<open>\<^verbatim>\<open>frame[mask]\<close>: the mask is computed for every row of the frame, the first
  exception aborts, and the rows whose mask is true are kept in order.\<close>

definition select :: "(row \<Rightarrow> error + bool) \<Rightarrow> dataframe \<Rightarrow> error + dataframe" where
  "select p d =
     (case traverse p (rows d) of
        Inl e \<Rightarrow> Inl e
      | Inr keep \<Rightarrow> Inr (d\<lparr>rows := map fst (filter snd (zip (rows d) keep))\<rparr>))"

text \<open>\<^verbatim>\<open>frame[p(frame[c])]\<close>: selecting on one column.\<close>

definition where_col :: "string \<Rightarrow> (cell \<Rightarrow> error + bool) \<Rightarrow> dataframe \<Rightarrow> error + dataframe" where
  "where_col c p d =
     (if has_col d c then select (\<lambda>r. p (cell_of r c)) d else Inl (KeyError c))"

text \<open>
  The regular expression engine is library code: \<open>re pat\<close> is \<^verbatim>\<open>re.compile(pat,
  re.IGNORECASE)\<close> with its \<^verbatim>\<open>search\<close>, and \<open>None\<close> when \<open>pat\<close> is no regular expression.
  \<^verbatim>\<open>.str.contains(pat, case=False, na=False)\<close> is false on every cell that is not a text.
\<close>

type_synonym regex = "string \<Rightarrow> (string \<Rightarrow> bool) option"

fun contains_cell :: "(string \<Rightarrow> bool) \<Rightarrow> cell \<Rightarrow> bool" where
  "contains_cell m (Str s) = m s"
| "contains_cell m c = False"

definition str_contains :: "regex \<Rightarrow> string \<Rightarrow> string \<Rightarrow> dataframe \<Rightarrow> error + dataframe" where
  "str_contains re c pat d =
     (if has_col d c then
        (case re pat of
           None \<Rightarrow> Inl RegexError
         | Some m \<Rightarrow> select (\<lambda>r. Inr (contains_cell m (cell_of r c))) d)
      else Inl (KeyError c))"

text \<open>\<^verbatim>\<open>cell >= t\<close> and \<^verbatim>\<open>cell <= t\<close> against a number: false on \<open>NaN\<close>, a
  \<^verbatim>\<open>TypeError\<close> on a text or a timestamp.\<close>

fun ge_cell :: "real \<Rightarrow> cell \<Rightarrow> error + bool" where
  "ge_cell t (Num x) = Inr (t \<le> x)"
| "ge_cell t NaN = Inr False"
| "ge_cell t (Str s) = Inl TypeError"
| "ge_cell t (Ts d) = Inl TypeError"

fun le_cell :: "real \<Rightarrow> cell \<Rightarrow> error + bool" where
  "le_cell t (Num x) = Inr (x \<le> t)"
| "le_cell t NaN = Inr False"
| "le_cell t (Str s) = Inl TypeError"
| "le_cell t (Ts d) = Inl TypeError"

text \<open>\<^verbatim>\<open>cell == n\<close> against a number: never raises.\<close>

fun eq_num_cell :: "real \<Rightarrow> cell \<Rightarrow> bool" where
  "eq_num_cell t (Num x) = (x = t)"
| "eq_num_cell t c = False"

text \<open>\<^verbatim>\<open>.dt.year == y\<close> and \<^verbatim>\<open>.dt.year.between(a, b)\<close>: \<^verbatim>\<open>NaT\<close> has no year and
  compares false; the \<^verbatim>\<open>.dt\<close> accessor raises on a column that holds no timestamps.\<close>

fun year_is :: "int \<Rightarrow> cell \<Rightarrow> error + bool" where
  "year_is y (Ts d) = Inr (year_of d = y)"
| "year_is y NaN = Inr False"
| "year_is y (Str s) = Inl AttributeError"
| "year_is y (Num x) = Inl AttributeError"

fun year_between :: "int \<Rightarrow> int \<Rightarrow> cell \<Rightarrow> error + bool" where
  "year_between a b (Ts d) = Inr (a \<le> year_of d \<and> year_of d \<le> b)"
| "year_between a b NaN = Inr False"
| "year_between a b (Str s) = Inl AttributeError"
| "year_between a b (Num x) = Inl AttributeError"

text \<open>Python's \<^verbatim>\<open>if arg:\<close> on an optional argument: \<^verbatim>\<open>None\<close>, the empty text and
  zero are all false, and the step is skipped.\<close>

definition when_text ::
  "string option \<Rightarrow> (string \<Rightarrow> dataframe \<Rightarrow> error + dataframe) \<Rightarrow> dataframe \<Rightarrow> error + dataframe" where
  "when_text a f d = (case a of None \<Rightarrow> Inr d | Some s \<Rightarrow> if s = [] then Inr d else f s d)"

definition when_int ::
  "int option \<Rightarrow> (int \<Rightarrow> dataframe \<Rightarrow> error + dataframe) \<Rightarrow> dataframe \<Rightarrow> error + dataframe" where
  "when_int a f d = (case a of None \<Rightarrow> Inr d | Some n \<Rightarrow> if n = 0 then Inr d else f n d)"

definition when_real ::
  "real option \<Rightarrow> (real \<Rightarrow> dataframe \<Rightarrow> error + dataframe) \<Rightarrow> dataframe \<Rightarrow> error + dataframe" where
  "when_real a f d = (case a of None \<Rightarrow> Inr d | Some x \<Rightarrow> if x = 0 then Inr d else f x d)"

text \<open>\<^verbatim>\<open>... and c in result.columns\<close>: the broader variant skips a step whose column the
  frame does not have.\<close>

definition in_columns ::
  "string \<Rightarrow> (dataframe \<Rightarrow> error + dataframe) \<Rightarrow> dataframe \<Rightarrow> error + dataframe" where
  "in_columns c f d = (if has_col d c then f d else Inr d)"

subsection \<open>The arguments of the two \<^verbatim>\<open>filter\<close> methods\<close>

text \<open>The arguments both methods take, then the ones only \<^verbatim>\<open>MovieDB.filter\<close> and only
  \<^verbatim>\<open>MovieFilter.filter\<close> take. Every argument defaults to \<^verbatim>\<open>None\<close>.\<close>

record query =
  genre :: "string option"
  rating :: "string option"
  year :: "int option"
  year_start :: "int option"
  year_end :: "int option"
  min_gross :: "real option"

record db_query = query +
  season :: "string option"

record mf_query = query +
  director :: "string option"
  star :: "string option"
  country :: "string option"
  company :: "string option"
  min_score :: "real option"
  min_votes :: "int option"

definition no_db_query :: db_query where
  "no_db_query =
     \<lparr>genre = None, rating = None, year = None, year_start = None, year_end = None,
      min_gross = None, season = None\<rparr>"

definition no_mf_query :: mf_query where
  "no_mf_query =
     \<lparr>genre = None, rating = None, year = None, year_start = None, year_end = None,
      min_gross = None, director = None, star = None, country = None, company = None,
      min_score = None, min_votes = None\<rparr>"

subsection \<open>\<^verbatim>\<open>MovieDB.filter\<close>\<close>

text \<open>Both methods are a sequence of \<^verbatim>\<open>if arg: result = result[...]\<close> statements on
  the local \<^verbatim>\<open>result\<close>; an exception in one of them ends the call.\<close>

fun run_steps :: "(dataframe \<Rightarrow> error + dataframe) list \<Rightarrow> dataframe \<Rightarrow> error + dataframe" where
  "run_steps [] result = Inr result"
| "run_steps (s # ss) result = and_then (s result) (run_steps ss)"

definition MovieDB_filter_steps :: "regex \<Rightarrow> db_query \<Rightarrow> (dataframe \<Rightarrow> error + dataframe) list" where
  "MovieDB_filter_steps re q =
     [when_text (genre q) (\<lambda>g. str_contains re ''Genre'' g),
      when_text (season q) (\<lambda>s. where_col ''Season'' (\<lambda>c. Inr (c = Str s))),
      when_int (year q) (\<lambda>y. where_col ''Date Released'' (year_is y)),
      when_int (year_start q) (\<lambda>a. when_int (year_end q)
        (\<lambda>b. where_col ''Date Released'' (year_between a b))),
      when_text (rating q) (\<lambda>r. where_col ''MPAA Rating'' (\<lambda>c. Inr (c = Str (upper r)))),
      when_real (min_gross q) (\<lambda>m. where_col ''Total Gross'' (ge_cell (m * 1000000)))]"

text \<open>The method returns the filtered frame; the second component is the object after
  the call. \<^verbatim>\<open>self.df\<close> is copied first and never assigned.\<close>

definition MovieDB_filter ::
  "regex \<Rightarrow> MovieDB \<Rightarrow> db_query \<Rightarrow> (error + dataframe) \<times> MovieDB" where
  "MovieDB_filter re self q = (run_steps (MovieDB_filter_steps re q) (MovieDB.df self), self)"

subsection \<open>\<^verbatim>\<open>MovieFilter.filter\<close> and its call in \<^verbatim>\<open>main\<close>\<close>

definition MovieFilter_filter_steps :: "regex \<Rightarrow> mf_query \<Rightarrow> (dataframe \<Rightarrow> error + dataframe) list" where
  "MovieFilter_filter_steps re q =
     [when_text (genre q) (\<lambda>g. in_columns ''Genre'' (str_contains re ''Genre'' g)),
      when_text (rating q) (\<lambda>r. in_columns ''MPAA Rating''
        (where_col ''MPAA Rating'' (\<lambda>c. Inr (c = Str (upper r))))),
      when_int (year q) (\<lambda>y. in_columns ''year''
        (where_col ''year'' (\<lambda>c. Inr (eq_num_cell (real_of_int y) c)))),
      when_int (year_start q) (\<lambda>a. when_int (year_end q) (\<lambda>b. in_columns ''year''
        (where_col ''year'' (\<lambda>c.
           and_then (ge_cell (real_of_int a) c) (\<lambda>lo.
           and_then (le_cell (real_of_int b) c) (\<lambda>hi. Inr (lo \<and> hi))))))),
      when_text (director q) (\<lambda>p. in_columns ''director'' (str_contains re ''director'' p)),
      when_text (star q) (\<lambda>p. in_columns ''star'' (str_contains re ''star'' p)),
      when_text (country q) (\<lambda>p. in_columns ''country'' (str_contains re ''country'' p)),
      when_text (company q) (\<lambda>p. in_columns ''Company'' (str_contains re ''Company'' p)),
      when_real (min_score q) (\<lambda>m. in_columns ''score'' (where_col ''score'' (ge_cell m))),
      when_real (min_gross q) (\<lambda>m. in_columns ''Total Gross''
        (where_col ''Total Gross'' (ge_cell m))),
      when_int (min_votes q) (\<lambda>m. in_columns ''votes''
        (where_col ''votes'' (ge_cell (real_of_int m))))]"

definition MovieFilter_filter ::
  "regex \<Rightarrow> MovieFilter \<Rightarrow> mf_query \<Rightarrow> (error + dataframe) \<times> MovieFilter" where
  "MovieFilter_filter re self q =
     (run_steps (MovieFilter_filter_steps re q) (MovieFilter.df self), self)"

text \<open>\<^verbatim>\<open>main\<close> hands the parsed options to \<^verbatim>\<open>filter\<close> as they are, but for
  \<^verbatim>\<open>min_gross=args.min_gross * 1_000_000 if args.min_gross else None\<close>.\<close>

definition main_min_gross :: "real option \<Rightarrow> real option" where
  "main_min_gross a =
     (case a of None \<Rightarrow> None | Some m \<Rightarrow> if m = 0 then None else Some (m * 1000000))"

definition MovieFilter_main_filter ::
  "regex \<Rightarrow> MovieFilter \<Rightarrow> mf_query \<Rightarrow> (error + dataframe) \<times> MovieFilter" where
  "MovieFilter_main_filter re self args =
     MovieFilter_filter re self (args\<lparr>min_gross := main_min_gross (min_gross args)\<rparr>)"

subsection \<open>What every step does to a frame\<close>

text \<open>A step \<^emph>\<open>narrows\<close>: where it returns, it keeps the columns and a subsequence of
  the rows, and on any frame with those columns whose rows are among the kept ones it
  returns that frame as it is.\<close>

definition narrowing :: "(dataframe \<Rightarrow> error + dataframe) \<Rightarrow> bool" where
  "narrowing s =
     (\<forall>d r. s d = Inr r \<longrightarrow>
        columns r = columns d \<and> subseq (rows r) (rows d) \<and>
        (\<forall>d'. columns d' = columns d \<and> set (rows d') \<subseteq> set (rows r) \<longrightarrow> s d' = Inr d'))"

section \<open>The sort engines\<close>









subsection \<open>\<^verbatim>\<open>MovieDB.sort\<close>\<close>



subsection \<open>\<^verbatim>\<open>MovieFilter.sort\<close>\<close>



section \<open>The renderers\<close>

subsection \<open>Numbers as text\<close>










subsection \<open>Frames as delimited text\<close>







subsection \<open>Column selection, \<^verbatim>\<open>apply\<close> and \<^verbatim>\<open>head\<close>\<close>





subsection \<open>\<^verbatim>\<open>MovieDB.display\<close>\<close>





subsection \<open>\<^verbatim>\<open>MovieFilter.display\<close> and \<^verbatim>\<open>MovieFilter.save_to_csv\<close>\<close>









section \<open>Example data\<close>

text \<open>A small curated data set: three dated records and one whose date is empty.\<close>

definition disney_columns :: "string list" where
  "disney_columns =
     [''Movie Title'', ''Date Released'', ''Genre'', ''MPAA Rating'', ''Total Gross'',
      ''Inflation Adjusted Gross'']"

definition disney_row :: "string \<Rightarrow> cell \<Rightarrow> string \<Rightarrow> string \<Rightarrow> real \<Rightarrow> real \<Rightarrow> row" where
  "disney_row title released genre_text code gross adjusted =
     [(''Movie Title'', Str title), (''Date Released'', released), (''Genre'', Str genre_text),
      (''MPAA Rating'', Str code), (''Total Gross'', Num gross),
      (''Inflation Adjusted Gross'', Num adjusted)]"

definition scenario_frame :: dataframe where
  "scenario_frame =
     \<lparr>columns = disney_columns,
      rows =
        [disney_row ''Zeta'' (Str ''25/06/1999'') ''Adventure'' ''G'' 99999999 150000000,
         disney_row ''Alpha'' (Str ''15/12/1994'') ''Comedy'' ''PG'' 100000000 190000000,
         disney_row ''Mu'' (Str ''01/01/2005'') ''Drama'' ''PG-13'' 100000001 120000000,
         disney_row ''Omega'' NaN ''Drama'' ''R'' 5 7]\<rparr>"

text \<open>The loaded form of the same data set: what \<^verbatim>\<open>MovieDB.__init__\<close> leaves in
  \<^verbatim>\<open>self.df\<close>.\<close>

definition loaded_row ::
  "string \<Rightarrow> cell \<Rightarrow> string \<Rightarrow> string \<Rightarrow> real \<Rightarrow> real \<Rightarrow> cell \<Rightarrow> row" where
  "loaded_row title released genre_text code gross adjusted season_text =
     disney_row title released genre_text code gross adjusted @ [(''Season'', season_text)]"

definition scenario_db :: MovieDB where
  "scenario_db =
     \<lparr>MovieDB.df =
        \<lparr>columns = disney_columns @ [''Season''],
         rows =
           [loaded_row ''Zeta'' (Ts (Date 25 6 1999)) ''Adventure'' ''G'' 99999999 150000000
              (Str ''Summer''),
            loaded_row ''Alpha'' (Ts (Date 15 12 1994)) ''Comedy'' ''PG'' 100000000 190000000
              (Str ''Winter''),
            loaded_row ''Mu'' (Ts (Date 1 1 2005)) ''Drama'' ''PG-13'' 100000001 120000000
              (Str ''Winter''),
            loaded_row ''Omega'' NaN ''Drama'' ''R'' 5 7 NaN]\<rparr>\<rparr>"

text \<open>A regular expression engine for the examples: on a pattern without
  metacharacters, \<^verbatim>\<open>search\<close> under \<^verbatim>\<open>re.IGNORECASE\<close> looks for the pattern as a piece of
  the text, letters compared without case.\<close>

fun starts_with :: "string \<Rightarrow> string \<Rightarrow> bool" where
  "starts_with [] s = True"
| "starts_with (p # ps) [] = False"
| "starts_with (p # ps) (c # cs) = (p = c \<and> starts_with ps cs)"

fun find_text :: "string \<Rightarrow> string \<Rightarrow> bool" where
  "find_text p [] = (p = [])"
| "find_text p (c # cs) = (starts_with p (c # cs) \<or> find_text p cs)"

definition plain_regex :: regex where
  "plain_regex pat = Some (\<lambda>s. find_text (lower pat) (lower s))"

text \<open>A small scraped data set as \<^verbatim>\<open>MovieFilter.__init__\<close> leaves it: the second record
  was made in 1980 and released in 1981, the last has no rating, gross, score or votes.\<close>

definition scraped_columns :: "string list" where
  "scraped_columns =
     [''Movie Title'', ''MPAA Rating'', ''Genre'', ''year'', ''Date Released'', ''score'',
      ''votes'', ''director'', ''star'', ''country'', ''budget'', ''Total Gross'', ''Company'']"

definition scraped_row ::
  "string \<Rightarrow> cell \<Rightarrow> string \<Rightarrow> real \<Rightarrow> string \<Rightarrow> cell \<Rightarrow> cell \<Rightarrow> cell \<Rightarrow> row" where
  "scraped_row title code genre_text made released points ballots gross =
     [(''Movie Title'', Str title), (''MPAA Rating'', code), (''Genre'', Str genre_text),
      (''year'', Num made), (''Date Released'', Str released), (''score'', points),
      (''votes'', ballots), (''director'', Str ''Ann Lee''), (''star'', Str ''Bo Ray''),
      (''country'', Str ''United States''), (''budget'', NaN), (''Total Gross'', gross),
      (''Company'', Str ''Acme Pictures'')]"

definition scraped_db :: MovieFilter where
  "scraped_db =
     \<lparr>MovieFilter.df =
        \<lparr>columns = scraped_columns,
         rows =
           [scraped_row ''Kappa'' (Str ''R'') ''Drama'' 1981 ''01/01/1981'' (Num (84 / 10))
              (Num 927000) (Num 46998772),
            scraped_row ''Sigma'' (Str ''PG'') ''Comedy'' 1980 ''15/05/1981'' (Num (58 / 10))
              (Num 65000) (Num 100000000),
            scraped_row ''Theta'' (Str ''Unknown'') ''Action'' 1985 ''03/07/1985'' (Num 7)
              (Num 1200) (Num 99999999),
            scraped_row ''Lambda'' NaN ''Horror'' 1990 ''N/A'' NaN NaN NaN]\<rparr>\<rparr>"






section \<open>Properties\<close>

subsection \<open>Frames\<close>

lemma traverse_Inr:
  "traverse f xs = Inr ys \<Longrightarrow> list_all2 (\<lambda>x y. f x = Inr y) xs ys"
  by (induction xs arbitrary: ys) (auto split: sum.splits)

lemma cell_of_update_same: "cell_of (AList.update c v r) c = v"
  by (simp add: cell_of_def update_conv')

lemma cell_of_update_other: "c \<noteq> c' \<Longrightarrow> cell_of (AList.update c v r) c' = cell_of r c'"
  by (simp add: cell_of_def update_conv')

subsection \<open>The curated loader\<close>

lemma to_datetime_cell_cases:
  "to_datetime_cell c = Inr c' \<Longrightarrow> c' = NaN \<or> (\<exists>d. c' = Ts d)"
  by (cases c) (auto split: option.splits)

lemma season_dict_spec: "map_of season_dict m = spec_season m"
  by (simp add: season_dict_def spec_season_def)

lemma spec_season_total: "1 \<le> m \<Longrightarrow> m \<le> 12 \<Longrightarrow> spec_season m \<noteq> None"
  unfolding spec_season_def by (simp split: if_splits) arith

lemma strptime_dmy_month:
  "strptime_dmy s = Some d \<Longrightarrow> 1 \<le> month_of d \<and> month_of d \<le> 12"
  by (auto simp: strptime_dmy_def split: list.splits if_splits option.splits)

text \<open>What a successful load leaves in the frame: every row of the source with its date
  parsed and its season added.\<close>

lemma MovieDB_load_rows:
  assumes "MovieDB_load src = Inr d"
  obtains d0 dates where "src = Parsed d0"
    and "list_all2 (\<lambda>x y. to_datetime_cell x = Inr y)
           (map (\<lambda>r. cell_of r ''Date Released'') (rows d0)) dates"
    and "rows d =
           map (\<lambda>(r, v). AList.update ''Season'' (season_cell v)
                            (AList.update ''Date Released'' v r))
             (zip (rows d0) dates)"
proof -
  from assms obtain d0 where src: "src = Parsed d0"
    by (cases src) (auto simp: MovieDB_load_def and_then_def)
  from assms src obtain dates where
    td: "to_datetime (map (\<lambda>r. cell_of r ''Date Released'') (rows d0)) = Inr dates"
    and rest: "and_then (getitem (setitem d0 ''Date Released'' dates) ''Date Released'')
                 (\<lambda>released. Inr (setitem (setitem d0 ''Date Released'' dates) ''Season''
                    (map season_cell released))) = Inr d"
    by (auto simp: MovieDB_load_def and_then_def getitem_def Let_def
        split: sum.splits if_splits)
  from td have l2: "list_all2 (\<lambda>x y. to_datetime_cell x = Inr y)
      (map (\<lambda>r. cell_of r ''Date Released'') (rows d0)) dates"
    by (simp add: to_datetime_def traverse_Inr)
  then have len: "length dates = length (rows d0)"
    by (auto dest: list_all2_lengthD)
  have rel: "map (\<lambda>r. cell_of r ''Date Released'') (rows (setitem d0 ''Date Released'' dates))
      = dates"
    using len by (auto simp: setitem_def cell_of_update_same intro!: nth_equalityI)
  from rest have "d = setitem (setitem d0 ''Date Released'' dates) ''Season''
      (map season_cell dates)"
    by (auto simp: and_then_def getitem_def rel split: if_splits)
  then have "rows d =
      map (\<lambda>(r, v). AList.update ''Season'' (season_cell v)
                       (AList.update ''Date Released'' v r))
        (zip (rows d0) dates)"
    using len by (auto simp: setitem_def intro!: nth_equalityI)
  with src l2 show ?thesis by (rule that)
qed

text \<open>
  Claim C9. For every record of a loaded curated data set whose release date is present,
  the season is the specification's month mapping applied to the month of that date; a
  record whose date is absent has an absent season; and no other kind of value is left
  in the date column.
\<close>

theorem season_from_month:
  assumes "MovieDB_init src = Inr db"
  shows "\<forall>r \<in> set (rows (MovieDB.df db)).
           (case cell_of r ''Date Released'' of
              Ts d \<Rightarrow> cell_of r ''Season'' =
                        (case spec_season (month_of d) of Some s \<Rightarrow> Str s | None \<Rightarrow> NaN)
            | NaN \<Rightarrow> cell_of r ''Season'' = NaN
            | _ \<Rightarrow> False)"
proof
  fix r assume r: "r \<in> set (rows (MovieDB.df db))"
  from assms have ld: "MovieDB_load src = Inr (MovieDB.df db)"
    by (auto simp: MovieDB_init_def split: sum.splits error.splits)
  from ld obtain d0 :: dataframe and dates where
    l2: "list_all2 (\<lambda>x y. to_datetime_cell x = Inr y)
           (map (\<lambda>r. cell_of r ''Date Released'') (rows d0)) dates"
    and rw: "rows (MovieDB.df db) =
           map (\<lambda>(r, v). AList.update ''Season'' (season_cell v)
                            (AList.update ''Date Released'' v r))
             (zip (rows d0) dates)"
    by (rule MovieDB_load_rows)
  from r rw obtain r0 v where rv: "(r0, v) \<in> set (zip (rows d0) dates)"
    and req: "r = AList.update ''Season'' (season_cell v) (AList.update ''Date Released'' v r0)"
    by auto
  from rv have "v \<in> set dates" by (auto dest: set_zip_rightD)
  with l2 obtain x where "to_datetime_cell x = Inr v"
    by (auto simp: list_all2_conv_all_nth in_set_conv_nth)
  then have v: "v = NaN \<or> (\<exists>d. v = Ts d)" by (rule to_datetime_cell_cases)
  have c1: "cell_of r ''Date Released'' = v"
    by (simp add: req cell_of_update_other cell_of_update_same)
  have c2: "cell_of r ''Season'' = season_cell v"
    by (simp add: req cell_of_update_same)
  from v show "case cell_of r ''Date Released'' of
              Ts d \<Rightarrow> cell_of r ''Season'' =
                        (case spec_season (month_of d) of Some s \<Rightarrow> Str s | None \<Rightarrow> NaN)
            | NaN \<Rightarrow> cell_of r ''Season'' = NaN
            | _ \<Rightarrow> False"
    by (auto simp: c1 c2 season_dict_spec)
qed

lemmas loader_eval =
  MovieDB_init_def MovieDB_load_def and_then_def getitem_def setitem_def has_col_def
  to_datetime_def strptime_dmy_def nat_of_digits_def digit_val_def days_in_month_def
  leap_year_def cell_of_def season_dict_def disney_columns_def disney_row_def

theorem season_from_month_witness:
  "(\<exists>db. MovieDB_init (Parsed scenario_frame) = Inr db \<and>
     map (\<lambda>r. (cell_of r ''Date Released'', cell_of r ''Season'')) (rows (MovieDB.df db)) =
       [(Ts (Date 25 6 1999), Str ''Summer''), (Ts (Date 15 12 1994), Str ''Winter''),
        (Ts (Date 1 1 2005), Str ''Winter''), (NaN, NaN)])
   \<and> spec_season 6 = Some ''Summer'' \<and> spec_season 12 = Some ''Winter''
   \<and> spec_season 1 = Some ''Winter''"
proof -
  obtain db where e: "MovieDB_init (Parsed scenario_frame) = Inr db"
    by (simp add: loader_eval scenario_frame_def)
  have dates: "map (\<lambda>r. cell_of r ''Date Released'') (rows (MovieDB.df db)) =
      [Ts (Date 25 6 1999), Ts (Date 15 12 1994), Ts (Date 1 1 2005), NaN]"
    using e by (auto simp: loader_eval scenario_frame_def)
  then obtain r1 r2 r3 r4 where rs: "rows (MovieDB.df db) = [r1, r2, r3, r4]"
    by (auto simp: map_eq_Cons_conv)
  from season_from_month[OF e] rs dates
  have "cell_of r1 ''Season'' = Str ''Summer''" "cell_of r2 ''Season'' = Str ''Winter''"
    "cell_of r3 ''Season'' = Str ''Winter''" "cell_of r4 ''Season'' = NaN"
    by (simp_all add: spec_season_def)
  with e rs dates show ?thesis
    by (simp add: spec_season_def)
qed

subsection \<open>Filtering\<close>

lemma and_then_Inr: "and_then (Inr x) f = f x"
  by (simp add: and_then_def)

lemma and_then_eq_Inr: "and_then m f = Inr r \<longleftrightarrow> (\<exists>x. m = Inr x \<and> f x = Inr r)"
  by (cases m) (simp_all add: and_then_def)

lemma narrowingI:
  assumes "\<And>d r. s d = Inr r \<Longrightarrow> columns r = columns d"
    and "\<And>d r. s d = Inr r \<Longrightarrow> subseq (rows r) (rows d)"
    and "\<And>d r d'. s d = Inr r \<Longrightarrow> columns d' = columns d \<Longrightarrow> set (rows d') \<subseteq> set (rows r) \<Longrightarrow> s d' = Inr d'"
  shows "narrowing s"
  using assms unfolding narrowing_def by blast

lemma narrowingD:
  assumes "narrowing s" and "s d = Inr r"
  shows "columns r = columns d" and "subseq (rows r) (rows d)"
    and "\<And>d'. columns d' = columns d \<Longrightarrow> set (rows d') \<subseteq> set (rows r) \<Longrightarrow> s d' = Inr d'"
  using assms unfolding narrowing_def by blast+

lemma subseq_kept: "length ks = length xs \<Longrightarrow> subseq (map fst (filter snd (zip xs ks))) xs"
proof (induction xs arbitrary: ks)
  case Nil
  then show ?case by simp
next
  case (Cons x xs)
  then obtain k ks' where "ks = k # ks'" by (cases ks) auto
  with Cons show ?case by (auto intro: subseq_Cons')
qed

lemma traverse_all_True:
  "\<forall>x \<in> set xs. p x = Inr True \<Longrightarrow> traverse p xs = Inr (replicate (length xs) True)"
  by (induction xs) auto

lemma kept_all: "map fst (filter snd (zip xs (replicate (length xs) True))) = xs"
  by (induction xs) auto

lemma kept_filter:
  "list_all2 (\<lambda>x y. p x = Inr y) xs ks \<Longrightarrow>
   map fst (filter snd (zip xs ks)) = filter (\<lambda>x. p x = Inr True) xs"
  by (induction xs ks rule: list_all2_induct) auto

lemma select_rows:
  assumes "select p d = Inr r"
  shows "rows r = filter (\<lambda>x. p x = Inr True) (rows d)" and "columns r = columns d"
proof -
  from assms obtain ks where t: "traverse p (rows d) = Inr ks"
    and r: "r = d\<lparr>rows := map fst (filter snd (zip (rows d) ks))\<rparr>"
    by (auto simp: select_def split: sum.splits)
  from t have "list_all2 (\<lambda>x y. p x = Inr y) (rows d) ks" by (rule traverse_Inr)
  then show "rows r = filter (\<lambda>x. p x = Inr True) (rows d)" by (simp add: r kept_filter)
  show "columns r = columns d" by (simp add: r)
qed

lemma select_all:
  fixes d :: dataframe
  assumes "\<forall>x \<in> set (rows d). p x = Inr True"
  shows "select p d = Inr d"
  using assms by (simp add: select_def traverse_all_True kept_all)

lemma narrowing_select: "narrowing (select p)"
proof (rule narrowingI)
  fix d r d' :: dataframe
  assume s: "select p d = Inr r"
  show "columns r = columns d" using s by (rule select_rows)
  show "subseq (rows r) (rows d)" by (simp add: select_rows(1)[OF s])
  assume "columns d' = columns d" and sub: "set (rows d') \<subseteq> set (rows r)"
  then have "\<forall>x \<in> set (rows d'). p x = Inr True" by (auto simp: select_rows(1)[OF s])
  then show "select p d' = Inr d'" by (rule select_all)
qed

lemma narrowing_skip: "narrowing Inr"
  by (rule narrowingI) auto

lemma where_col_rows:
  assumes "where_col c p d = Inr r"
  shows "rows r = filter (\<lambda>x. p (cell_of x c) = Inr True) (rows d)"
    and "columns r = columns d" and "has_col d c"
  using assms by (auto simp: where_col_def dest: select_rows split: if_splits)

lemma narrowing_where_col: "narrowing (where_col c p)"
proof (rule narrowingI)
  fix d r d' :: dataframe
  assume s: "where_col c p d = Inr r"
  then have hc: "has_col d c" and sel: "select (\<lambda>r. p (cell_of r c)) d = Inr r"
    by (auto simp: where_col_def split: if_splits)
  show "columns r = columns d" using sel by (rule narrowingD[OF narrowing_select])
  show "subseq (rows r) (rows d)" using sel by (rule narrowingD[OF narrowing_select])
  assume cols: "columns d' = columns d" and sub: "set (rows d') \<subseteq> set (rows r)"
  from narrowingD(3)[OF narrowing_select sel cols sub] hc cols
  show "where_col c p d' = Inr d'" by (simp add: where_col_def has_col_def)
qed

lemma narrowing_str_contains: "narrowing (str_contains re c pat)"
proof (rule narrowingI)
  fix d r d' :: dataframe
  assume s: "str_contains re c pat d = Inr r"
  then obtain m where hc: "has_col d c" and m: "re pat = Some m"
    and sel: "select (\<lambda>r. Inr (contains_cell m (cell_of r c))) d = Inr r"
    by (auto simp: str_contains_def split: if_splits option.splits)
  show "columns r = columns d" using sel by (rule narrowingD[OF narrowing_select])
  show "subseq (rows r) (rows d)" using sel by (rule narrowingD[OF narrowing_select])
  assume cols: "columns d' = columns d" and sub: "set (rows d') \<subseteq> set (rows r)"
  from narrowingD(3)[OF narrowing_select sel cols sub] hc cols m
  show "str_contains re c pat d' = Inr d'" by (simp add: str_contains_def has_col_def)
qed

lemma narrowing_in_columns:
  assumes f: "narrowing f"
  shows "narrowing (in_columns c f)"
proof (rule narrowingI)
  fix d r d' :: dataframe
  assume s: "in_columns c f d = Inr r"
  show "columns r = columns d"
    using s narrowingD(1)[OF f] by (auto simp: in_columns_def split: if_splits)
  show "subseq (rows r) (rows d)"
    using s narrowingD(2)[OF f] by (auto simp: in_columns_def split: if_splits)
  assume cols: "columns d' = columns d" and sub: "set (rows d') \<subseteq> set (rows r)"
  show "in_columns c f d' = Inr d'"
  proof (cases "has_col d c")
    case True
    with s have "f d = Inr r" by (simp add: in_columns_def)
    from narrowingD(3)[OF f this cols sub] True cols show ?thesis
      by (simp add: in_columns_def has_col_def)
  next
    case False
    with cols show ?thesis by (simp add: in_columns_def has_col_def)
  qed
qed

lemma when_text_eq:
  "when_text a f = (case a of None \<Rightarrow> Inr | Some s \<Rightarrow> if s = [] then Inr else f s)"
  by (rule ext) (simp add: when_text_def split: option.splits)

lemma when_int_eq:
  "when_int a f = (case a of None \<Rightarrow> Inr | Some n \<Rightarrow> if n = 0 then Inr else f n)"
  by (rule ext) (simp add: when_int_def split: option.splits)

lemma when_real_eq:
  "when_real a f = (case a of None \<Rightarrow> Inr | Some x \<Rightarrow> if x = 0 then Inr else f x)"
  by (rule ext) (simp add: when_real_def split: option.splits)

lemma narrowing_when_text: "(\<And>s. narrowing (f s)) \<Longrightarrow> narrowing (when_text a f)"
  by (simp add: when_text_eq narrowing_skip split: option.splits)

lemma narrowing_when_int: "(\<And>s. narrowing (f s)) \<Longrightarrow> narrowing (when_int a f)"
  by (simp add: when_int_eq narrowing_skip split: option.splits)

lemma narrowing_when_real: "(\<And>s. narrowing (f s)) \<Longrightarrow> narrowing (when_real a f)"
  by (simp add: when_real_eq narrowing_skip split: option.splits)

lemma narrowing_then:
  assumes f: "narrowing f" and g: "narrowing g"
  shows "narrowing (\<lambda>d. and_then (f d) g)"
proof (rule narrowingI)
  fix d r d' :: dataframe
  assume s: "and_then (f d) g = Inr r"
  then obtain m where fm: "f d = Inr m" and gm: "g m = Inr r"
    by (auto simp: and_then_eq_Inr)
  note f1 = narrowingD(1)[OF f fm] and f2 = narrowingD(2)[OF f fm] and f3 = narrowingD(3)[OF f fm]
  note g1 = narrowingD(1)[OF g gm] and g2 = narrowingD(2)[OF g gm] and g3 = narrowingD(3)[OF g gm]
  show "columns r = columns d" using f1 g1 by simp
  show "subseq (rows r) (rows d)" using g2 f2 by (rule subseq_order.trans)
  assume cols: "columns d' = columns d" and sub: "set (rows d') \<subseteq> set (rows r)"
  from g2 have "set (rows r) \<subseteq> set (rows m)" by (auto dest: list_emb_set)
  with sub have "set (rows d') \<subseteq> set (rows m)" by blast
  with cols have "f d' = Inr d'" by (rule f3)
  moreover from cols f1 sub have "g d' = Inr d'" by (intro g3) auto
  ultimately show "and_then (f d') g = Inr d'" by (simp add: and_then_def)
qed

lemma run_steps_Nil: "run_steps [] = Inr"
  by (rule ext) simp

lemma run_steps_Cons: "run_steps (s # ss) = (\<lambda>d. and_then (s d) (run_steps ss))"
  by (rule ext) simp

lemma narrowing_run_steps: "(\<And>s. s \<in> set ss \<Longrightarrow> narrowing s) \<Longrightarrow> narrowing (run_steps ss)"
proof (induction ss)
  case Nil
  show ?case by (simp only: run_steps_Nil narrowing_skip)
next
  case (Cons s ss)
  have "narrowing s" by (rule Cons.prems) simp
  moreover have "narrowing (run_steps ss)" by (rule Cons.IH) (simp add: Cons.prems)
  ultimately show ?case by (simp only: run_steps_Cons narrowing_then)
qed

lemma run_steps_append:
  "run_steps (xs @ ys) d = and_then (run_steps xs d) (run_steps ys)"
  by (induction xs arbitrary: d) (auto simp: and_then_def split: sum.splits)

lemma narrowing_MovieDB_steps: "s \<in> set (MovieDB_filter_steps re q) \<Longrightarrow> narrowing s"
  by (auto simp: MovieDB_filter_steps_def
      intro!: narrowing_when_text narrowing_when_int narrowing_when_real
        narrowing_where_col narrowing_str_contains)

lemma narrowing_MovieFilter_steps: "s \<in> set (MovieFilter_filter_steps re q) \<Longrightarrow> narrowing s"
  by (auto simp: MovieFilter_filter_steps_def
      intro!: narrowing_when_text narrowing_when_int narrowing_when_real
        narrowing_in_columns narrowing_where_col narrowing_str_contains)

text \<open>
  Claim C6. Both \<^verbatim>\<open>filter\<close> methods are pure: the object is the same after the call;
  where the call returns a frame, it has the columns of the source and its rows are a
  subsequence (so a subset) of the source's rows; and the same filter applied to that
  frame returns it unchanged.
\<close>

theorem filter_pure:
  "(snd (MovieDB_filter re db q) = db \<and>
    (\<forall>r. fst (MovieDB_filter re db q) = Inr r \<longrightarrow>
       columns r = columns (MovieDB.df db) \<and>
       subseq (rows r) (rows (MovieDB.df db)) \<and>
       set (rows r) \<subseteq> set (rows (MovieDB.df db)) \<and>
       MovieDB_filter re \<lparr>MovieDB.df = r\<rparr> q = (Inr r, \<lparr>MovieDB.df = r\<rparr>))) \<and>
   (snd (MovieFilter_filter re mf p) = mf \<and>
    (\<forall>r. fst (MovieFilter_filter re mf p) = Inr r \<longrightarrow>
       columns r = columns (MovieFilter.df mf) \<and>
       subseq (rows r) (rows (MovieFilter.df mf)) \<and>
       set (rows r) \<subseteq> set (rows (MovieFilter.df mf)) \<and>
       MovieFilter_filter re \<lparr>MovieFilter.df = r\<rparr> p = (Inr r, \<lparr>MovieFilter.df = r\<rparr>)))"
proof (intro conjI allI impI)
  show "snd (MovieDB_filter re db q) = db" by (simp add: MovieDB_filter_def)
  show "snd (MovieFilter_filter re mf p) = mf" by (simp add: MovieFilter_filter_def)
next
  fix r assume "fst (MovieDB_filter re db q) = Inr r"
  then have a: "run_steps (MovieDB_filter_steps re q) (MovieDB.df db) = Inr r"
    by (simp add: MovieDB_filter_def)
  have nar: "narrowing (run_steps (MovieDB_filter_steps re q))"
    by (rule narrowing_run_steps) (rule narrowing_MovieDB_steps)
  note n = narrowingD[OF nar a]
  show "columns r = columns (MovieDB.df db)" by (rule n(1))
  show "subseq (rows r) (rows (MovieDB.df db))" by (rule n(2))
  then show "set (rows r) \<subseteq> set (rows (MovieDB.df db))" by (auto dest: list_emb_set)
  have "run_steps (MovieDB_filter_steps re q) r = Inr r" by (rule n(3)) (simp_all add: n(1))
  then show "MovieDB_filter re \<lparr>MovieDB.df = r\<rparr> q = (Inr r, \<lparr>MovieDB.df = r\<rparr>)"
    by (simp add: MovieDB_filter_def)
next
  fix r assume "fst (MovieFilter_filter re mf p) = Inr r"
  then have a: "run_steps (MovieFilter_filter_steps re p) (MovieFilter.df mf) = Inr r"
    by (simp add: MovieFilter_filter_def)
  have nar: "narrowing (run_steps (MovieFilter_filter_steps re p))"
    by (rule narrowing_run_steps) (rule narrowing_MovieFilter_steps)
  note n = narrowingD[OF nar a]
  show "columns r = columns (MovieFilter.df mf)" by (rule n(1))
  show "subseq (rows r) (rows (MovieFilter.df mf))" by (rule n(2))
  then show "set (rows r) \<subseteq> set (rows (MovieFilter.df mf))" by (auto dest: list_emb_set)
  have "run_steps (MovieFilter_filter_steps re p) r = Inr r" by (rule n(3)) (simp_all add: n(1))
  then show "MovieFilter_filter re \<lparr>MovieFilter.df = r\<rparr> p = (Inr r, \<lparr>MovieFilter.df = r\<rparr>)"
    by (simp add: MovieFilter_filter_def)
qed

lemmas filter_eval =
  MovieDB_filter_def MovieDB_filter_steps_def MovieFilter_filter_def MovieFilter_filter_steps_def
  MovieFilter_main_filter_def main_min_gross_def
  when_text_def when_int_def when_real_def in_columns_def where_col_def str_contains_def
  select_def has_col_def cell_of_def and_then_def no_db_query_def no_mf_query_def
  plain_regex_def lower_def lower_char_def upper_def upper_char_def

lemmas example_eval =
  scenario_db_def loaded_row_def disney_row_def disney_columns_def
  scraped_db_def scraped_row_def scraped_columns_def

theorem filter_pure_witness:
  "(fst (MovieDB_filter plain_regex scenario_db
          (no_db_query\<lparr>min_gross := Some 100, season := Some ''Winter''\<rparr>)) =
      Inr \<lparr>columns = disney_columns @ [''Season''],
           rows = [loaded_row ''Alpha'' (Ts (Date 15 12 1994)) ''Comedy'' ''PG'' 100000000 190000000
                     (Str ''Winter''),
                   loaded_row ''Mu'' (Ts (Date 1 1 2005)) ''Drama'' ''PG-13'' 100000001 120000000
                     (Str ''Winter'')]\<rparr> \<and>
    snd (MovieDB_filter plain_regex scenario_db
          (no_db_query\<lparr>min_gross := Some 100, season := Some ''Winter''\<rparr>)) = scenario_db \<and>
    fst (MovieDB_filter plain_regex
          \<lparr>MovieDB.df = \<lparr>columns = disney_columns @ [''Season''],
           rows = [loaded_row ''Alpha'' (Ts (Date 15 12 1994)) ''Comedy'' ''PG'' 100000000 190000000
                     (Str ''Winter''),
                   loaded_row ''Mu'' (Ts (Date 1 1 2005)) ''Drama'' ''PG-13'' 100000001 120000000
                     (Str ''Winter'')]\<rparr>\<rparr>
          (no_db_query\<lparr>min_gross := Some 100, season := Some ''Winter''\<rparr>)) =
      Inr \<lparr>columns = disney_columns @ [''Season''],
           rows = [loaded_row ''Alpha'' (Ts (Date 15 12 1994)) ''Comedy'' ''PG'' 100000000 190000000
                     (Str ''Winter''),
                   loaded_row ''Mu'' (Ts (Date 1 1 2005)) ''Drama'' ''PG-13'' 100000001 120000000
                     (Str ''Winter'')]\<rparr>) \<and>
   (fst (MovieFilter_filter plain_regex scraped_db
          (no_mf_query\<lparr>genre := Some ''DR'', min_score := Some 8\<rparr>)) =
      Inr \<lparr>columns = scraped_columns,
           rows = [scraped_row ''Kappa'' (Str ''R'') ''Drama'' 1981 ''01/01/1981'' (Num (84 / 10))
                     (Num 927000) (Num 46998772)]\<rparr> \<and>
    snd (MovieFilter_filter plain_regex scraped_db
          (no_mf_query\<lparr>genre := Some ''DR'', min_score := Some 8\<rparr>)) = scraped_db \<and>
    fst (MovieFilter_filter plain_regex
          \<lparr>MovieFilter.df = \<lparr>columns = scraped_columns,
           rows = [scraped_row ''Kappa'' (Str ''R'') ''Drama'' 1981 ''01/01/1981'' (Num (84 / 10))
                     (Num 927000) (Num 46998772)]\<rparr>\<rparr>
          (no_mf_query\<lparr>genre := Some ''DR'', min_score := Some 8\<rparr>)) =
      Inr \<lparr>columns = scraped_columns,
           rows = [scraped_row ''Kappa'' (Str ''R'') ''Drama'' 1981 ''01/01/1981'' (Num (84 / 10))
                     (Num 927000) (Num 46998772)]\<rparr>)"
proof -
  let ?Q = "no_db_query\<lparr>min_gross := Some 100, season := Some ''Winter''\<rparr>"
  let ?R = "\<lparr>columns = disney_columns @ [''Season''],
           rows = [loaded_row ''Alpha'' (Ts (Date 15 12 1994)) ''Comedy'' ''PG'' 100000000 190000000
                     (Str ''Winter''),
                   loaded_row ''Mu'' (Ts (Date 1 1 2005)) ''Drama'' ''PG-13'' 100000001 120000000
                     (Str ''Winter'')]\<rparr>"
  let ?P = "no_mf_query\<lparr>genre := Some ''DR'', min_score := Some 8\<rparr>"
  let ?S = "\<lparr>columns = scraped_columns,
           rows = [scraped_row ''Kappa'' (Str ''R'') ''Drama'' 1981 ''01/01/1981'' (Num (84 / 10))
                     (Num 927000) (Num 46998772)]\<rparr>"
  have a: "fst (MovieDB_filter plain_regex scenario_db ?Q) = Inr ?R"
    by (simp add: filter_eval example_eval)
  have b: "fst (MovieFilter_filter plain_regex scraped_db ?P) = Inr ?S"
    by (simp add: filter_eval example_eval)
  note pure = filter_pure [of plain_regex scenario_db ?Q scraped_db ?P]
  from pure have a1: "snd (MovieDB_filter plain_regex scenario_db ?Q) = scenario_db"
    and b1: "snd (MovieFilter_filter plain_regex scraped_db ?P) = scraped_db"
    by blast+
  from pure a have "MovieDB_filter plain_regex \<lparr>MovieDB.df = ?R\<rparr> ?Q = (Inr ?R, \<lparr>MovieDB.df = ?R\<rparr>)"
    by blast
  then have a2: "fst (MovieDB_filter plain_regex \<lparr>MovieDB.df = ?R\<rparr> ?Q) = Inr ?R"
    by (simp only: fst_conv)
  from pure b have "MovieFilter_filter plain_regex \<lparr>MovieFilter.df = ?S\<rparr> ?P = (Inr ?S, \<lparr>MovieFilter.df = ?S\<rparr>)"
    by blast
  then have b2: "fst (MovieFilter_filter plain_regex \<lparr>MovieFilter.df = ?S\<rparr> ?P) = Inr ?S"
    by (simp only: fst_conv)
  from a a1 a2 b b1 b2 show ?thesis by blast
qed

lemma ge_cell_True: "ge_cell t c = Inr True \<longleftrightarrow> (\<exists>g. c = Num g \<and> t \<le> g)"
  by (cases c) auto


lemma run_steps_nth:
  assumes run: "run_steps ss d = Inr r"
    and nar: "\<And>s. s \<in> set ss \<Longrightarrow> narrowing s"
    and k: "k < length ss"
    and st: "\<And>a b. columns a = columns d \<Longrightarrow> (ss ! k) a = Inr b \<Longrightarrow> \<forall>x \<in> set (rows b). P x"
  shows "\<forall>x \<in> set (rows r). P x"
proof -
  from k have split: "ss = take k ss @ (ss ! k) # drop (Suc k) ss"
    by (rule id_take_nth_drop)
  from run have "run_steps (take k ss @ (ss ! k) # drop (Suc k) ss) d = Inr r"
    using split by simp
  then obtain a b where a: "run_steps (take k ss) d = Inr a"
    and b: "(ss ! k) a = Inr b" and r: "run_steps (drop (Suc k) ss) b = Inr r"
    by (auto simp: run_steps_append and_then_eq_Inr)
  have "narrowing (run_steps (take k ss))"
    by (rule narrowing_run_steps) (auto dest: in_set_takeD intro: nar)
  from narrowingD(1)[OF this a] have "columns a = columns d" .
  from st[OF this b] have Pb: "\<forall>x \<in> set (rows b). P x" .
  have "narrowing (run_steps (drop (Suc k) ss))"
    by (rule narrowing_run_steps) (auto dest: in_set_dropD intro: nar)
  from narrowingD(2)[OF this r] have "set (rows r) \<subseteq> set (rows b)"
    by (auto dest: list_emb_set)
  with Pb show ?thesis by blast
qed

lemma threshold_step_kept:
  assumes "t \<noteq> 0" and "has_col a c"
    and "when_real (Some t) (\<lambda>m. in_columns c (where_col c (ge_cell (f m)))) a = Inr b"
  shows "\<forall>x \<in> set (rows b). \<exists>g. cell_of x c = Num g \<and> f t \<le> g"
proof -
  from assms have "where_col c (ge_cell (f t)) a = Inr b"
    by (simp add: when_real_def in_columns_def)
  from where_col_rows(1)[OF this] show ?thesis by (auto simp: ge_cell_True)
qed

lemma votes_step_kept:
  assumes "t \<noteq> 0" and "has_col a c"
    and "when_int (Some t) (\<lambda>m. in_columns c (where_col c (ge_cell (real_of_int m)))) a = Inr b"
  shows "\<forall>x \<in> set (rows b). \<exists>g. cell_of x c = Num g \<and> real_of_int t \<le> g"
proof -
  from assms have "where_col c (ge_cell (real_of_int t)) a = Inr b"
    by (simp add: when_int_def in_columns_def)
  from where_col_rows(1)[OF this] show ?thesis by (auto simp: ge_cell_True)
qed

lemma db_gross_kept:
  assumes "t \<noteq> 0"
    and "fst (MovieDB_filter re db (q\<lparr>min_gross := Some t\<rparr>)) = Inr r"
  shows "\<forall>x \<in> set (rows r). \<exists>g. cell_of x ''Total Gross'' = Num g \<and> t * 1000000 \<le> g"
proof (rule run_steps_nth[where k = 5 and ss = "MovieDB_filter_steps re (q\<lparr>min_gross := Some t\<rparr>)"
      and d = "MovieDB.df db"])
  show "run_steps (MovieDB_filter_steps re (q\<lparr>min_gross := Some t\<rparr>)) (MovieDB.df db) = Inr r"
    using assms(2) by (simp add: MovieDB_filter_def)
  show "5 < length (MovieDB_filter_steps re (q\<lparr>min_gross := Some t\<rparr>))"
    by (simp add: MovieDB_filter_steps_def)
  fix a b :: dataframe
  assume "(MovieDB_filter_steps re (q\<lparr>min_gross := Some t\<rparr>) ! 5) a = Inr b"
  then have "where_col ''Total Gross'' (ge_cell (t * 1000000)) a = Inr b"
    using assms(1) by (simp add: MovieDB_filter_steps_def when_real_def)
  from where_col_rows(1)[OF this]
  show "\<forall>x \<in> set (rows b). \<exists>g. cell_of x ''Total Gross'' = Num g \<and> t * 1000000 \<le> g"
    by (auto simp: ge_cell_True)
qed (rule narrowing_MovieDB_steps)

lemma mf_score_kept:
  assumes "t \<noteq> 0" and "has_col (MovieFilter.df mf) ''score''"
    and "fst (MovieFilter_filter re mf (p\<lparr>min_score := Some t\<rparr>)) = Inr r"
  shows "\<forall>x \<in> set (rows r). \<exists>g. cell_of x ''score'' = Num g \<and> t \<le> g"
proof (rule run_steps_nth[where k = 8 and ss = "MovieFilter_filter_steps re (p\<lparr>min_score := Some t\<rparr>)"
      and d = "MovieFilter.df mf"])
  show "run_steps (MovieFilter_filter_steps re (p\<lparr>min_score := Some t\<rparr>)) (MovieFilter.df mf) = Inr r"
    using assms(3) by (simp add: MovieFilter_filter_def)
  show "8 < length (MovieFilter_filter_steps re (p\<lparr>min_score := Some t\<rparr>))"
    by (simp add: MovieFilter_filter_steps_def)
  fix a b :: dataframe
  assume "columns a = columns (MovieFilter.df mf)"
  then have hc: "has_col a ''score''" using assms(2) by (simp add: has_col_def)
  assume "(MovieFilter_filter_steps re (p\<lparr>min_score := Some t\<rparr>) ! 8) a = Inr b"
  then have "when_real (Some t) (\<lambda>m. in_columns ''score'' (where_col ''score'' (ge_cell m))) a = Inr b"
    by (simp add: MovieFilter_filter_steps_def)
  from threshold_step_kept[where f = "\<lambda>m. m", OF assms(1) hc this]
  show "\<forall>x \<in> set (rows b). \<exists>g. cell_of x ''score'' = Num g \<and> t \<le> g" .
qed (rule narrowing_MovieFilter_steps)

lemma mf_gross_kept:
  assumes "t \<noteq> 0" and "has_col (MovieFilter.df mf) ''Total Gross''"
    and "fst (MovieFilter_filter re mf (p\<lparr>min_gross := Some t\<rparr>)) = Inr r"
  shows "\<forall>x \<in> set (rows r). \<exists>g. cell_of x ''Total Gross'' = Num g \<and> t \<le> g"
proof (rule run_steps_nth[where k = 9 and ss = "MovieFilter_filter_steps re (p\<lparr>min_gross := Some t\<rparr>)"
      and d = "MovieFilter.df mf"])
  show "run_steps (MovieFilter_filter_steps re (p\<lparr>min_gross := Some t\<rparr>)) (MovieFilter.df mf) = Inr r"
    using assms(3) by (simp add: MovieFilter_filter_def)
  show "9 < length (MovieFilter_filter_steps re (p\<lparr>min_gross := Some t\<rparr>))"
    by (simp add: MovieFilter_filter_steps_def)
  fix a b :: dataframe
  assume "columns a = columns (MovieFilter.df mf)"
  then have hc: "has_col a ''Total Gross''" using assms(2) by (simp add: has_col_def)
  assume "(MovieFilter_filter_steps re (p\<lparr>min_gross := Some t\<rparr>) ! 9) a = Inr b"
  then have "when_real (Some t) (\<lambda>m. in_columns ''Total Gross''
      (where_col ''Total Gross'' (ge_cell m))) a = Inr b"
    by (simp add: MovieFilter_filter_steps_def)
  from threshold_step_kept[where f = "\<lambda>m. m", OF assms(1) hc this]
  show "\<forall>x \<in> set (rows b). \<exists>g. cell_of x ''Total Gross'' = Num g \<and> t \<le> g" .
qed (rule narrowing_MovieFilter_steps)

lemma mf_votes_kept:
  assumes "t \<noteq> 0" and "has_col (MovieFilter.df mf) ''votes''"
    and "fst (MovieFilter_filter re mf (p\<lparr>min_votes := Some t\<rparr>)) = Inr r"
  shows "\<forall>x \<in> set (rows r). \<exists>g. cell_of x ''votes'' = Num g \<and> real_of_int t \<le> g"
proof (rule run_steps_nth[where k = 10 and ss = "MovieFilter_filter_steps re (p\<lparr>min_votes := Some t\<rparr>)"
      and d = "MovieFilter.df mf"])
  show "run_steps (MovieFilter_filter_steps re (p\<lparr>min_votes := Some t\<rparr>)) (MovieFilter.df mf) = Inr r"
    using assms(3) by (simp add: MovieFilter_filter_def)
  show "10 < length (MovieFilter_filter_steps re (p\<lparr>min_votes := Some t\<rparr>))"
    by (simp add: MovieFilter_filter_steps_def)
  fix a b :: dataframe
  assume "columns a = columns (MovieFilter.df mf)"
  then have hc: "has_col a ''votes''" using assms(2) by (simp add: has_col_def)
  assume "(MovieFilter_filter_steps re (p\<lparr>min_votes := Some t\<rparr>) ! 10) a = Inr b"
  then have "when_int (Some t) (\<lambda>m. in_columns ''votes''
      (where_col ''votes'' (ge_cell (real_of_int m)))) a = Inr b"
    by (simp add: MovieFilter_filter_steps_def)
  from votes_step_kept[OF assms(1) hc this]
  show "\<forall>x \<in> set (rows b). \<exists>g. cell_of x ''votes'' = Num g \<and> real_of_int t \<le> g" .
qed (rule narrowing_MovieFilter_steps)

lemma zero_steps:
  "MovieDB_filter_steps re (q\<lparr>min_gross := Some 0\<rparr>) = MovieDB_filter_steps re (q\<lparr>min_gross := None\<rparr>)"
  "MovieFilter_filter_steps re (p\<lparr>min_score := Some 0\<rparr>) = MovieFilter_filter_steps re (p\<lparr>min_score := None\<rparr>)"
  "MovieFilter_filter_steps re (p\<lparr>min_gross := Some 0\<rparr>) = MovieFilter_filter_steps re (p\<lparr>min_gross := None\<rparr>)"
  "MovieFilter_filter_steps re (p\<lparr>min_votes := Some 0\<rparr>) = MovieFilter_filter_steps re (p\<lparr>min_votes := None\<rparr>)"
  by (simp_all add: MovieDB_filter_steps_def MovieFilter_filter_steps_def when_real_eq when_int_eq)

text \<open>
  Claim C10. A minimum of exactly 0 is the same call as no minimum, for the minimum gross
  of both variants (also through \<^verbatim>\<open>main\<close>) and the minimum score and votes of the broader
  one; with nothing else asked the whole frame comes back, the records with an absent
  field included. Under a positive minimum no record with an absent field is returned
  (in the broader variant: when the frame has the column, else the step is skipped).
\<close>

theorem zero_threshold_skipped:
  "MovieDB_filter re db (q\<lparr>min_gross := Some 0\<rparr>) = MovieDB_filter re db (q\<lparr>min_gross := None\<rparr>) \<and>
   MovieFilter_filter re mf (p\<lparr>min_score := Some 0\<rparr>) = MovieFilter_filter re mf (p\<lparr>min_score := None\<rparr>) \<and>
   MovieFilter_filter re mf (p\<lparr>min_gross := Some 0\<rparr>) = MovieFilter_filter re mf (p\<lparr>min_gross := None\<rparr>) \<and>
   MovieFilter_main_filter re mf (p\<lparr>min_gross := Some 0\<rparr>) =
     MovieFilter_main_filter re mf (p\<lparr>min_gross := None\<rparr>) \<and>
   MovieFilter_filter re mf (p\<lparr>min_votes := Some 0\<rparr>) = MovieFilter_filter re mf (p\<lparr>min_votes := None\<rparr>) \<and>
   fst (MovieDB_filter re db (no_db_query\<lparr>min_gross := Some 0\<rparr>)) = Inr (MovieDB.df db) \<and>
   fst (MovieFilter_main_filter re mf
          (no_mf_query\<lparr>min_score := Some 0, min_gross := Some 0, min_votes := Some 0\<rparr>)) =
     Inr (MovieFilter.df mf) \<and>
   (\<forall>t r. 0 < t \<and> fst (MovieDB_filter re db (q\<lparr>min_gross := Some t\<rparr>)) = Inr r \<longrightarrow>
      (\<forall>x \<in> set (rows r). cell_of x ''Total Gross'' \<noteq> NaN)) \<and>
   (\<forall>t r. 0 < t \<and> has_col (MovieFilter.df mf) ''score'' \<and>
      fst (MovieFilter_filter re mf (p\<lparr>min_score := Some t\<rparr>)) = Inr r \<longrightarrow>
      (\<forall>x \<in> set (rows r). cell_of x ''score'' \<noteq> NaN)) \<and>
   (\<forall>t r. 0 < t \<and> has_col (MovieFilter.df mf) ''Total Gross'' \<and>
      fst (MovieFilter_main_filter re mf (p\<lparr>min_gross := Some t\<rparr>)) = Inr r \<longrightarrow>
      (\<forall>x \<in> set (rows r). cell_of x ''Total Gross'' \<noteq> NaN)) \<and>
   (\<forall>t r. 0 < t \<and> has_col (MovieFilter.df mf) ''votes'' \<and>
      fst (MovieFilter_filter re mf (p\<lparr>min_votes := Some t\<rparr>)) = Inr r \<longrightarrow>
      (\<forall>x \<in> set (rows r). cell_of x ''votes'' \<noteq> NaN))"
proof (intro conjI allI impI)
  show "MovieDB_filter re db (q\<lparr>min_gross := Some 0\<rparr>) = MovieDB_filter re db (q\<lparr>min_gross := None\<rparr>)"
    by (simp add: MovieDB_filter_def zero_steps)
  show "MovieFilter_filter re mf (p\<lparr>min_score := Some 0\<rparr>) = MovieFilter_filter re mf (p\<lparr>min_score := None\<rparr>)"
    by (simp add: MovieFilter_filter_def zero_steps)
  show "MovieFilter_filter re mf (p\<lparr>min_gross := Some 0\<rparr>) = MovieFilter_filter re mf (p\<lparr>min_gross := None\<rparr>)"
    by (simp add: MovieFilter_filter_def zero_steps)
  show "MovieFilter_main_filter re mf (p\<lparr>min_gross := Some 0\<rparr>) =
     MovieFilter_main_filter re mf (p\<lparr>min_gross := None\<rparr>)"
    by (simp add: MovieFilter_main_filter_def main_min_gross_def)
  show "MovieFilter_filter re mf (p\<lparr>min_votes := Some 0\<rparr>) = MovieFilter_filter re mf (p\<lparr>min_votes := None\<rparr>)"
    by (simp add: MovieFilter_filter_def zero_steps)
  show "fst (MovieDB_filter re db (no_db_query\<lparr>min_gross := Some 0\<rparr>)) = Inr (MovieDB.df db)"
    by (simp add: MovieDB_filter_def MovieDB_filter_steps_def no_db_query_def
        when_text_def when_int_def when_real_def and_then_def)
  show "fst (MovieFilter_main_filter re mf
          (no_mf_query\<lparr>min_score := Some 0, min_gross := Some 0, min_votes := Some 0\<rparr>)) =
     Inr (MovieFilter.df mf)"
    by (simp add: MovieFilter_main_filter_def main_min_gross_def MovieFilter_filter_def
        MovieFilter_filter_steps_def no_mf_query_def
        when_text_def when_int_def when_real_def and_then_def)
next
  fix t r
  assume "0 < t \<and> fst (MovieDB_filter re db (q\<lparr>min_gross := Some t\<rparr>)) = Inr r"
  with db_gross_kept[of t re db q r]
  show "\<forall>x \<in> set (rows r). cell_of x ''Total Gross'' \<noteq> NaN" by auto
next
  fix t r
  assume "0 < t \<and> has_col (MovieFilter.df mf) ''score'' \<and>
      fst (MovieFilter_filter re mf (p\<lparr>min_score := Some t\<rparr>)) = Inr r"
  with mf_score_kept[of t mf re p r]
  show "\<forall>x \<in> set (rows r). cell_of x ''score'' \<noteq> NaN" by auto
next
  fix t :: real and r
  assume a: "0 < t \<and> has_col (MovieFilter.df mf) ''Total Gross'' \<and>
      fst (MovieFilter_main_filter re mf (p\<lparr>min_gross := Some t\<rparr>)) = Inr r"
  then have "t \<noteq> 0" by simp
  with a have "fst (MovieFilter_filter re mf (p\<lparr>min_gross := Some (t * 1000000)\<rparr>)) = Inr r"
    by (simp add: MovieFilter_main_filter_def main_min_gross_def)
  with a mf_gross_kept[of "t * 1000000" mf re p r]
  show "\<forall>x \<in> set (rows r). cell_of x ''Total Gross'' \<noteq> NaN" by auto
next
  fix t r
  assume "0 < t \<and> has_col (MovieFilter.df mf) ''votes'' \<and>
      fst (MovieFilter_filter re mf (p\<lparr>min_votes := Some t\<rparr>)) = Inr r"
  with mf_votes_kept[of t mf re p r]
  show "\<forall>x \<in> set (rows r). cell_of x ''votes'' \<noteq> NaN" by auto
qed

theorem zero_threshold_skipped_witness:
  "fst (MovieDB_filter plain_regex scenario_db (no_db_query\<lparr>min_gross := Some 0\<rparr>)) =
     Inr (MovieDB.df scenario_db) \<and>
   fst (MovieFilter_main_filter plain_regex scraped_db
          (no_mf_query\<lparr>min_score := Some 0, min_gross := Some 0, min_votes := Some 0\<rparr>)) =
     Inr (MovieFilter.df scraped_db) \<and>
   cell_of (rows (MovieFilter.df scraped_db) ! 3) ''score'' = NaN \<and>
   cell_of (rows (MovieFilter.df scraped_db) ! 3) ''Total Gross'' = NaN \<and>
   cell_of (rows (MovieFilter.df scraped_db) ! 3) ''votes'' = NaN \<and>
   fst (MovieFilter_filter plain_regex scraped_db (no_mf_query\<lparr>min_score := Some 5\<rparr>)) =
     Inr \<lparr>columns = scraped_columns, rows = take 3 (rows (MovieFilter.df scraped_db))\<rparr> \<and>
   list_all (\<lambda>x. cell_of x ''score'' \<noteq> NaN) (take 3 (rows (MovieFilter.df scraped_db))) \<and>
   fst (MovieDB_filter plain_regex scenario_db (no_db_query\<lparr>min_gross := Some 100\<rparr>)) =
     Inr \<lparr>columns = disney_columns @ [''Season''],
          rows = [rows (MovieDB.df scenario_db) ! 1, rows (MovieDB.df scenario_db) ! 2]\<rparr> \<and>
   list_all (\<lambda>x. cell_of x ''Total Gross'' \<noteq> NaN)
     [rows (MovieDB.df scenario_db) ! 1, rows (MovieDB.df scenario_db) ! 2]"
proof -
  note z = zero_threshold_skipped [of plain_regex scenario_db no_db_query scraped_db no_mf_query]
  have a: "fst (MovieFilter_filter plain_regex scraped_db (no_mf_query\<lparr>min_score := Some 5\<rparr>)) =
     Inr \<lparr>columns = scraped_columns, rows = take 3 (rows (MovieFilter.df scraped_db))\<rparr>"
    by (simp add: filter_eval example_eval)
  have hc: "has_col (MovieFilter.df scraped_db) ''score''"
    by (simp add: has_col_def example_eval)
  from z hc a have "\<forall>x \<in> set (rows \<lparr>columns = scraped_columns,
      rows = take 3 (rows (MovieFilter.df scraped_db))\<rparr>). cell_of x ''score'' \<noteq> NaN"
    by (elim conjE allE[where x = "5::real"] allE[where x = "\<lparr>columns = scraped_columns,
      rows = take 3 (rows (MovieFilter.df scraped_db))\<rparr>"]) simp
  then have a': "list_all (\<lambda>x. cell_of x ''score'' \<noteq> NaN) (take 3 (rows (MovieFilter.df scraped_db)))"
    by (simp add: list_all_iff)
  have b: "fst (MovieDB_filter plain_regex scenario_db (no_db_query\<lparr>min_gross := Some 100\<rparr>)) =
     Inr \<lparr>columns = disney_columns @ [''Season''],
          rows = [rows (MovieDB.df scenario_db) ! 1, rows (MovieDB.df scenario_db) ! 2]\<rparr>"
    by (simp add: filter_eval example_eval)
  from z b have "\<forall>x \<in> set (rows \<lparr>columns = disney_columns @ [''Season''],
          rows = [rows (MovieDB.df scenario_db) ! 1, rows (MovieDB.df scenario_db) ! 2]\<rparr>).
      cell_of x ''Total Gross'' \<noteq> NaN"
    by (elim conjE allE[where x = "100::real"] allE[where x = "\<lparr>columns = disney_columns @ [''Season''],
          rows = [rows (MovieDB.df scenario_db) ! 1, rows (MovieDB.df scenario_db) ! 2]\<rparr>"]) simp
  then have b': "list_all (\<lambda>x. cell_of x ''Total Gross'' \<noteq> NaN)
     [rows (MovieDB.df scenario_db) ! 1, rows (MovieDB.df scenario_db) ! 2]"
    by (simp add: list_all_iff)
  have c: "cell_of (rows (MovieFilter.df scraped_db) ! 3) ''score'' = NaN"
    "cell_of (rows (MovieFilter.df scraped_db) ! 3) ''Total Gross'' = NaN"
    "cell_of (rows (MovieFilter.df scraped_db) ! 3) ''votes'' = NaN"
    by (simp_all add: cell_of_def example_eval)
  from z a a' b b' c show ?thesis by blast
qed












































end
